theory Spec2Isabelle
  imports Main "HOL-Library.Word"
begin

section \<open>BatchMatMul: shape inference and gradient definitions\<close>

text \<open>
  A shallow embedding of \<^verbatim>\<open>caffe2/operators/batch_matmul_op.cc\<close>: the tensor
  inference function of the \<^verbatim>\<open>BatchMatMul\<close> schema and
  \<^verbatim>\<open>GetBatchMatMulGradient::GetGradientDefs\<close>.

  Machine integers. A dimension is a \<^verbatim>\<open>TIndex\<close>, a 64-bit signed integer,
  the element type of the protobuf field \<^verbatim>\<open>TensorShape.dims\<close>. The
  non-broadcast branch keeps the two matrix dimensions in locals of type
  \<^verbatim>\<open>int\<close> (32 bits), the broadcast branch in locals of type
  \<^verbatim>\<open>size_t\<close> (64 bits, LP64). A narrowing conversion keeps the low bits
  (\<open>ucast\<close>); a signed widening conversion extends the sign (\<open>scast\<close>).
\<close>

subsection \<open>Data model\<close>

text \<open>
  \<^verbatim>\<open>TIndex\<close> and the field \<^verbatim>\<open>dims\<close> are declared outside this file:
  \<^verbatim>\<open>typedef int64_t TIndex\<close> and \<^verbatim>\<open>repeated int64 dims\<close>.
\<close>

type_synonym TIndex = "64 word"
type_synonym c_int = "32 word"
type_synonym size_t = "64 word"

text \<open>The element types of \<^verbatim>\<open>TensorProto.DataType\<close>.\<close>

datatype DataType =
  UNDEFINED | FLOAT | INT32 | BYTE | STRING | BOOL | UINT8 | INT8 | UINT16 | INT16
  | INT64 | FLOAT16 | DOUBLE

record TensorShape =
  dims :: "TIndex list"
  data_type :: DataType

text \<open>
  An \<^verbatim>\<open>Argument\<close> of an operator definition: its name and its integer field
  \<^verbatim>\<open>i\<close>. The other value fields are not read by this file.
\<close>

record Argument =
  arg_name :: string
  arg_i :: int

record OperatorDef =
  op_type :: string
  op_name :: string
  op_input :: "string list"
  op_output :: "string list"
  op_arg :: "Argument list"

text \<open>
  Every \<^verbatim>\<open>CAFFE_ENFORCE\<close> of the file throws the same exception class; the
  model names the failure after the place that throws it:
  \<^item> \<open>ShapeError\<close>: \<^verbatim>\<open>CAFFE_ENFORCE_GE(ndim, 2)\<close> in the inference function;
  \<^item> \<open>InputSizeError\<close>: \<^verbatim>\<open>CAFFE_ENFORCE_EQ(def_.input_size(), 2)\<close>;
  \<^item> \<open>UnsupportedGradientError\<close>: \<^verbatim>\<open>CAFFE_ENFORCE(!broadcast, ...)\<close>;
  \<^item> \<open>OutOfRange\<close>: a read outside a repeated field or a vector, which C++ leaves
    undefined. The model stops there, and no result below depends on it.
\<close>

datatype error = ShapeError | InputSizeError | UnsupportedGradientError | OutOfRange

subsection \<open>Framework helpers\<close>

text \<open>
  Modelled from the spec: \<^verbatim>\<open>ArgumentHelper\<close> (\<^verbatim>\<open>HasArgument\<close>,
  \<^verbatim>\<open>GetArgument\<close>, \<^verbatim>\<open>GetSingleArgument\<close>) is declared outside this
  file. An operator carries ordered argument key/value pairs; an option that is absent has
  its default. \<open>GetArgument\<close> is the first argument of that name, \<open>None\<close> where the
  code throws because there is none.
\<close>

definition GetArgument :: "OperatorDef \<Rightarrow> string \<Rightarrow> Argument option" where
  "GetArgument d n = find (\<lambda>a. arg_name a = n) (op_arg d)"

definition HasArgument :: "OperatorDef \<Rightarrow> string \<Rightarrow> bool" where
  "HasArgument d n = (GetArgument d n \<noteq> None)"

definition GetSingleArgument :: "OperatorDef \<Rightarrow> string \<Rightarrow> int \<Rightarrow> int" where
  "GetSingleArgument d n default_value =
     (case GetArgument d n of None \<Rightarrow> default_value | Some a \<Rightarrow> arg_i a)"

text \<open>
  Modelled from the spec: \<^verbatim>\<open>MakeArgument\<close>, \<^verbatim>\<open>CreateOperatorDef\<close> and
  \<^verbatim>\<open>CreateTensorShape\<close> are declared outside this file; each builds the
  message from its parts.
\<close>

definition MakeArgument :: "string \<Rightarrow> int \<Rightarrow> Argument" where
  "MakeArgument n v = \<lparr>arg_name = n, arg_i = v\<rparr>"

definition CreateOperatorDef ::
  "string \<Rightarrow> string \<Rightarrow> string list \<Rightarrow> string list \<Rightarrow> Argument list \<Rightarrow> OperatorDef" where
  "CreateOperatorDef ty nm inputs outputs args =
     \<lparr>op_type = ty, op_name = nm, op_input = inputs, op_output = outputs, op_arg = args\<rparr>"

definition CreateTensorShape :: "TIndex list \<Rightarrow> DataType \<Rightarrow> TensorShape" where
  "CreateTensorShape ds dt = \<lparr>dims = ds, data_type = dt\<rparr>"

text \<open>
  \<^verbatim>\<open>in[k].dims(j)\<close> and \<^verbatim>\<open>v[j]\<close>, with the C \<^verbatim>\<open>int\<close> index as an
  integer: a read outside the sequence is \<open>OutOfRange\<close>.
\<close>

definition vec_at :: "'a list \<Rightarrow> int \<Rightarrow> error + 'a" where
  "vec_at v j = (if 0 \<le> j \<and> j < int (length v) then Inr (v ! nat j) else Inl OutOfRange)"

definition dims_size :: "TensorShape \<Rightarrow> int" where
  "dims_size s = int (length (dims s))"

definition dims_at :: "TensorShape \<Rightarrow> int \<Rightarrow> error + TIndex" where
  "dims_at s j = vec_at (dims s) j"

subsection \<open>The tensor inference function\<close>

text \<open>
  The branch \<^verbatim>\<open>if (!broadcast)\<close>. \<open>ndim\<close> is the rank of the first input, and
  both inputs are read at indices computed from it. \<open>a_dim0\<close> and \<open>b_dim1\<close> are
  \<^verbatim>\<open>int\<close> locals: the 64-bit dimension is narrowed on the way in and
  sign-extended on the way into \<open>output_dims\<close>.
\<close>

definition infer_no_broadcast ::
  "OperatorDef \<Rightarrow> TensorShape \<Rightarrow> TensorShape \<Rightarrow> error + TensorShape list" where
  "infer_no_broadcast d in0 in1 =
     (let ndim = dims_size in0 in
      if \<not> ndim \<ge> 2 then Inl ShapeError
      else
        case (if GetSingleArgument d ''trans_a'' 0 \<noteq> 0
              then dims_at in0 (ndim - 1) else dims_at in0 (ndim - 2)) of
          Inl e \<Rightarrow> Inl e
        | Inr a \<Rightarrow>
           (case (if GetSingleArgument d ''trans_b'' 0 \<noteq> 0
                  then dims_at in1 (ndim - 2) else dims_at in1 (ndim - 1)) of
              Inl e \<Rightarrow> Inl e
            | Inr b \<Rightarrow>
               (let a_dim0 = (ucast a :: c_int);
                    b_dim1 = (ucast b :: c_int);
                    output_dims = dims in0;
                    output_dims = output_dims[nat (ndim - 2) := scast a_dim0];
                    output_dims = output_dims[nat (ndim - 1) := scast b_dim1]
                in Inr [CreateTensorShape output_dims (data_type in0)])))"

text \<open>
  The \<^verbatim>\<open>else\<close> branch. The two loops copy the dimensions into vectors; a 1-D
  first input gets a leading 1, a 1-D second input a trailing 1. \<open>M\<close>, \<open>K\<close> and \<open>N\<close>
  are \<^verbatim>\<open>size_t\<close> locals; \<open>K\<close> is read and not used afterwards.
\<close>

definition infer_broadcast ::
  "OperatorDef \<Rightarrow> TensorShape \<Rightarrow> TensorShape \<Rightarrow> error + TensorShape list" where
  "infer_broadcast d in0 in1 =
     (let ndims_A = dims_size in0;
          ndims_B = dims_size in1;
          dims_A = map (\<lambda>k. dims in0 ! k) [0 ..< nat ndims_A];
          dims_B = map (\<lambda>k. dims in1 ! k) [0 ..< nat ndims_B];
          A_broadcasted = (ndims_A = 1);
          dims_A = (if A_broadcasted then 1 # dims_A else dims_A);
          ndims_A = (if A_broadcasted then 2 else ndims_A);
          B_broadcasted = (ndims_B = 1);
          dims_B = (if B_broadcasted then dims_B @ [1] else dims_B);
          ndims_B = (if B_broadcasted then 2 else ndims_B);
          trans_a = (GetSingleArgument d ''trans_a'' 0 \<noteq> 0);
          trans_b = (GetSingleArgument d ''trans_b'' 0 \<noteq> 0)
      in
        case vec_at dims_A (if trans_a then ndims_A - 1 else ndims_A - 2) of
          Inl e \<Rightarrow> Inl e
        | Inr m \<Rightarrow>
       (case vec_at dims_A (if trans_a then ndims_A - 2 else ndims_A - 1) of
          Inl e \<Rightarrow> Inl e
        | Inr k \<Rightarrow>
       (case vec_at dims_B (if trans_b then ndims_B - 2 else ndims_B - 1) of
          Inl e \<Rightarrow> Inl e
        | Inr n \<Rightarrow>
           (let M = (ucast m :: size_t);
                K = (ucast k :: size_t);
                N = (ucast n :: size_t);
                new_dims = (if ndims_A \<ge> ndims_B
                            then take (length dims_A - 2) dims_A
                            else take (length dims_B - 2) dims_B);
                new_dims = (if \<not> A_broadcasted then new_dims @ [ucast M] else new_dims);
                new_dims = (if \<not> B_broadcasted then new_dims @ [ucast N] else new_dims);
                new_dims = (if A_broadcasted \<and> B_broadcasted then new_dims @ [1] else new_dims)
            in Inr [CreateTensorShape new_dims (data_type in0)]))))"

text \<open>
  The inference function of the schema, on the operator definition and the shapes of the
  inputs. The schema fixes two inputs; \<^verbatim>\<open>in[0]\<close> and \<^verbatim>\<open>in[1]\<close> of a
  shorter vector are out of range.
\<close>

definition TensorInferenceFunction ::
  "OperatorDef \<Rightarrow> TensorShape list \<Rightarrow> error + TensorShape list" where
  "TensorInferenceFunction d ins =
     (case ins of
        in0 # in1 # _ \<Rightarrow>
          (let broadcast = (GetSingleArgument d ''broadcast'' 0 \<noteq> 0) in
           if \<not> broadcast then infer_no_broadcast d in0 in1
           else infer_broadcast d in0 in1)
      | _ \<Rightarrow> Inl OutOfRange)"

subsection \<open>The gradient maker\<close>

text \<open>
  Modelled from the spec: \<^verbatim>\<open>GradientMakerBase\<close> (\<^verbatim>\<open>Def\<close>, \<^verbatim>\<open>I\<close>,
  \<^verbatim>\<open>GO\<close>, \<^verbatim>\<open>GI\<close>) is declared outside this file. The maker holds the
  forward operator and the names of the gradients of its outputs; \<open>I k\<close> is the name of
  input \<open>k\<close>, \<open>GO k\<close> the name of the gradient of output \<open>k\<close>, \<open>GI k\<close> the name
  under which the gradient of input \<open>k\<close> is produced.
\<close>

record GradientMakerBase =
  Def :: OperatorDef
  g_output :: "string list"

definition GradientName :: "string \<Rightarrow> string" where
  "GradientName n = n @ ''_grad''"

definition I :: "GradientMakerBase \<Rightarrow> nat \<Rightarrow> error + string" where
  "I g k = vec_at (op_input (Def g)) (int k)"

definition GO :: "GradientMakerBase \<Rightarrow> nat \<Rightarrow> error + string" where
  "GO g k = vec_at (g_output g) (int k)"

definition GI :: "GradientMakerBase \<Rightarrow> nat \<Rightarrow> error + string" where
  "GI g k = (case I g k of Inl e \<Rightarrow> Inl e | Inr n \<Rightarrow> Inr (GradientName n))"

text \<open>
  The idiom \<^verbatim>\<open>bool f = false; if (HasArgument(Def(), n)) f = GetArgument(Def(), n).i();\<close>
  that reads \<^verbatim>\<open>broadcast\<close>, \<^verbatim>\<open>trans_a\<close> and \<^verbatim>\<open>trans_b\<close>.
\<close>

definition bool_argument :: "OperatorDef \<Rightarrow> string \<Rightarrow> bool" where
  "bool_argument d n =
     (if HasArgument d n
      then (case GetArgument d n of Some a \<Rightarrow> arg_i a \<noteq> 0 | None \<Rightarrow> False)
      else False)"

text \<open>
  One \<^verbatim>\<open>CreateOperatorDef("BatchMatMul", "", {x, y}, {z}, args)\<close>, with the
  names looked up first.
\<close>

definition BatchMatMulDef ::
  "error + string \<Rightarrow> error + string \<Rightarrow> error + string \<Rightarrow> Argument list \<Rightarrow> error + OperatorDef" where
  "BatchMatMulDef x y z args =
     (case x of Inl e \<Rightarrow> Inl e | Inr xn \<Rightarrow>
       (case y of Inl e \<Rightarrow> Inl e | Inr yn \<Rightarrow>
         (case z of Inl e \<Rightarrow> Inl e | Inr zn \<Rightarrow>
            Inr (CreateOperatorDef ''BatchMatMul'' [] [xn, yn] [zn] args))))"

definition two_defs :: "error + OperatorDef \<Rightarrow> error + OperatorDef \<Rightarrow> error + OperatorDef list" where
  "two_defs p q =
     (case p of Inl e \<Rightarrow> Inl e | Inr a \<Rightarrow>
       (case q of Inl e \<Rightarrow> Inl e | Inr b \<Rightarrow> Inr [a, b]))"

definition GetGradientDefs :: "GradientMakerBase \<Rightarrow> error + OperatorDef list" where
  "GetGradientDefs g =
     (if length (op_input (Def g)) \<noteq> 2 then Inl InputSizeError
      else
        let broadcast = bool_argument (Def g) ''broadcast'' in
        if broadcast then Inl UnsupportedGradientError
        else
          let trans_a = bool_argument (Def g) ''trans_a'';
              trans_b = bool_argument (Def g) ''trans_b'';
              no_trans_arg = [];
              trans_a_arg = [MakeArgument ''trans_a'' 1];
              trans_b_arg = [MakeArgument ''trans_b'' 1];
              trans_both_arg = [MakeArgument ''trans_a'' 1, MakeArgument ''trans_b'' 1];
              scratch = HasArgument (Def g) ''use_scratch'';
              no_trans_arg =
                (if scratch then no_trans_arg @ [MakeArgument ''use_scratch'' 1] else no_trans_arg);
              trans_a_arg =
                (if scratch then trans_a_arg @ [MakeArgument ''use_scratch'' 1] else trans_a_arg);
              trans_b_arg =
                (if scratch then trans_b_arg @ [MakeArgument ''use_scratch'' 1] else trans_b_arg);
              trans_both_arg =
                (if scratch then trans_both_arg @ [MakeArgument ''use_scratch'' 1]
                 else trans_both_arg)
          in
            if trans_a then
              if trans_b then
                two_defs (BatchMatMulDef (I g 1) (GO g 0) (GI g 0) trans_both_arg)
                         (BatchMatMulDef (GO g 0) (I g 0) (GI g 1) trans_both_arg)
              else
                two_defs (BatchMatMulDef (I g 1) (GO g 0) (GI g 0) trans_b_arg)
                         (BatchMatMulDef (I g 0) (GO g 0) (GI g 1) no_trans_arg)
            else
              if trans_b then
                two_defs (BatchMatMulDef (GO g 0) (I g 1) (GI g 0) no_trans_arg)
                         (BatchMatMulDef (GO g 0) (I g 0) (GI g 1) trans_a_arg)
              else
                two_defs (BatchMatMulDef (GO g 0) (I g 1) (GI g 0) trans_b_arg)
                         (BatchMatMulDef (I g 0) (GO g 0) (GI g 1) trans_a_arg))"

subsection \<open>The descriptions of the specification\<close>

text \<open>
  The broadcast rule in the words of the specification, to compare with
  \<open>infer_broadcast\<close>: a 1-D first operand gets a leading axis of size 1, a 1-D second
  operand a trailing axis of size 1; the batch dimensions are all dimensions but the last
  two, taken from the operand that has more dimensions after the promotion (from the
  first operand when both have as many); \<open>M\<close> and \<open>N\<close> are read from the promoted
  shapes.
\<close>

definition spec_promote_A :: "TIndex list \<Rightarrow> TIndex list" where
  "spec_promote_A a = (if length a = 1 then 1 # a else a)"

definition spec_promote_B :: "TIndex list \<Rightarrow> TIndex list" where
  "spec_promote_B b = (if length b = 1 then b @ [1] else b)"

definition spec_batch_prefix :: "TIndex list \<Rightarrow> TIndex list" where
  "spec_batch_prefix p = take (length p - 2) p"

definition spec_longer_prefix :: "TIndex list \<Rightarrow> TIndex list \<Rightarrow> TIndex list" where
  "spec_longer_prefix a b =
     (if length (spec_promote_A a) \<ge> length (spec_promote_B b)
      then spec_batch_prefix (spec_promote_A a) else spec_batch_prefix (spec_promote_B b))"

definition spec_M :: "bool \<Rightarrow> TIndex list \<Rightarrow> TIndex" where
  "spec_M trans_a p = (if trans_a then p ! (length p - 1) else p ! (length p - 2))"

definition spec_N :: "bool \<Rightarrow> TIndex list \<Rightarrow> TIndex" where
  "spec_N trans_b p = (if trans_b then p ! (length p - 2) else p ! (length p - 1))"

definition spec_broadcast_dims :: "bool \<Rightarrow> bool \<Rightarrow> TIndex list \<Rightarrow> TIndex list \<Rightarrow> TIndex list" where
  "spec_broadcast_dims trans_a trans_b a b =
     spec_longer_prefix a b
     @ (if length a = 1 then [] else [spec_M trans_a (spec_promote_A a)])
     @ (if length b = 1 then [] else [spec_N trans_b (spec_promote_B b)])
     @ (if length a = 1 \<and> length b = 1 then [1] else [])"

text \<open>
  The gradient table in the words of the specification: one emitted operator is a
  \<^verbatim>\<open>BatchMatMul\<close> on two named inputs, with \<^verbatim>\<open>trans_a = 1\<close> and
  \<^verbatim>\<open>trans_b = 1\<close> among its arguments where the table transposes the first and the
  second factor, followed by the arguments carried over from the forward operator.
\<close>

definition spec_matmul ::
  "string \<Rightarrow> string \<Rightarrow> string \<Rightarrow> bool \<Rightarrow> bool \<Rightarrow> Argument list \<Rightarrow> OperatorDef" where
  "spec_matmul x y out ta tb extra =
     \<lparr>op_type = ''BatchMatMul'', op_name = [], op_input = [x, y], op_output = [out],
      op_arg = (if ta then [\<lparr>arg_name = ''trans_a'', arg_i = 1\<rparr>] else [])
             @ (if tb then [\<lparr>arg_name = ''trans_b'', arg_i = 1\<rparr>] else []) @ extra\<rparr>"

definition spec_scratch :: "OperatorDef \<Rightarrow> Argument list" where
  "spec_scratch d =
     (if HasArgument d ''use_scratch'' then [\<lparr>arg_name = ''use_scratch'', arg_i = 1\<rparr>] else [])"

section \<open>Properties\<close>

subsection \<open>Auxiliary facts\<close>

lemmas gradient_defs =
  GetGradientDefs_def Let_def I_def GO_def GI_def vec_at_def BatchMatMulDef_def two_defs_def
  CreateOperatorDef_def MakeArgument_def spec_matmul_def spec_scratch_def

lemmas eval_defs =
  TensorInferenceFunction_def infer_no_broadcast_def infer_broadcast_def Let_def
  GetSingleArgument_def GetArgument_def dims_size_def dims_at_def vec_at_def CreateTensorShape_def

lemma scast_ucast_int_range:
  fixes x :: "64 word"
  assumes "- (2 ^ 31) \<le> sint x" and "sint x < 2 ^ 31"
  shows "scast (ucast x :: 32 word) = x"
proof -
  have "sint (ucast x :: 32 word) = signed_take_bit 31 (uint x)"
    by (simp add: sint_uint unsigned_ucast_eq signed_take_bit_take_bit)
  also have "\<dots> = signed_take_bit 31 (signed_take_bit 63 (uint x))"
    by simp
  also have "\<dots> = signed_take_bit 31 (sint x)"
    by (simp add: sint_uint)
  also have "\<dots> = sint x"
    using assms by (simp add: signed_take_bit_int_eq_self)
  finally have "sint (ucast x :: 32 word) = sint x" .
  then show ?thesis
    by (simp add: scast_eq)
qed

lemma update_last_two:
  assumes "2 \<le> length xs"
  shows "xs[length xs - 2 := a, length xs - 1 := b] = take (length xs - 2) xs @ [a, b]"
proof (rule nth_equalityI)
  show "length (xs[length xs - 2 := a, length xs - 1 := b]) = length (take (length xs - 2) xs @ [a, b])"
    using assms by simp
next
  fix k assume "k < length (xs[length xs - 2 := a, length xs - 1 := b])"
  then have k: "k < length xs" by simp
  consider "k < length xs - 2" | "k = length xs - 2" | "k = length xs - 1"
    using k by linarith
  then show "xs[length xs - 2 := a, length xs - 1 := b] ! k = (take (length xs - 2) xs @ [a, b]) ! k"
  proof cases
    case 1
    then have "k \<noteq> length xs - 2" and "k \<noteq> length xs - 1"
      by linarith+
    with 1 k show ?thesis by (simp add: nth_append)
  next
    case 2
    then have "k \<noteq> length xs - 1"
      using assms by linarith
    with 2 k show ?thesis by (simp add: nth_append)
  next
    case 3
    then have "\<not> k < length xs - 2" and "k - (length xs - 2) = 1" and "k \<noteq> length xs - 2"
      using assms by linarith+
    with 3 k show ?thesis by (simp add: nth_append)
  qed
qed

lemma infer_no_broadcast_eq:
  assumes "2 \<le> length (dims in0)" and "length (dims in0) \<le> length (dims in1)"
  shows "infer_no_broadcast d in0 in1 =
    Inr [\<lparr>dims = (dims in0)
            [length (dims in0) - 2 :=
               scast (ucast (dims in0 ! (length (dims in0)
                        - (if GetSingleArgument d ''trans_a'' 0 \<noteq> 0 then 1 else 2))) :: c_int),
             length (dims in0) - 1 :=
               scast (ucast (dims in1 ! (length (dims in0)
                        - (if GetSingleArgument d ''trans_b'' 0 \<noteq> 0 then 2 else 1))) :: c_int)],
          data_type = data_type in0\<rparr>]"
  using assms
  by (auto simp add: infer_no_broadcast_def Let_def dims_size_def dims_at_def vec_at_def CreateTensorShape_def
      nat_diff_distrib')

lemma infer_no_broadcast_read_in_range:
  assumes "2 \<le> length (dims in0)"
    and "length (dims in0) - (if GetSingleArgument d ''trans_b'' 0 \<noteq> 0 then 2 else 1)
           < length (dims in1)"
  shows "infer_no_broadcast d in0 in1 =
    Inr [\<lparr>dims = (dims in0)
            [length (dims in0) - 2 :=
               scast (ucast (dims in0 ! (length (dims in0)
                        - (if GetSingleArgument d ''trans_a'' 0 \<noteq> 0 then 1 else 2))) :: c_int),
             length (dims in0) - 1 :=
               scast (ucast (dims in1 ! (length (dims in0)
                        - (if GetSingleArgument d ''trans_b'' 0 \<noteq> 0 then 2 else 1))) :: c_int)],
          data_type = data_type in0\<rparr>]"
  using assms
  by (auto simp add: infer_no_broadcast_def Let_def dims_size_def dims_at_def vec_at_def
      CreateTensorShape_def nat_diff_distrib' split: if_splits)

lemma infer_broadcast_eq:
  assumes "dims in0 \<noteq> []" and "dims in1 \<noteq> []"
  shows "infer_broadcast d in0 in1 =
    Inr [\<lparr>dims = spec_broadcast_dims (GetSingleArgument d ''trans_a'' 0 \<noteq> 0)
                   (GetSingleArgument d ''trans_b'' 0 \<noteq> 0) (dims in0) (dims in1),
          data_type = data_type in0\<rparr>]"
proof -
  have la: "1 \<le> length (dims in0)" and lb: "1 \<le> length (dims in1)"
    using assms by (simp_all add: Suc_le_eq)
  show ?thesis
  proof (cases "length (dims in0) = 1")
    case a1: True
    show ?thesis
    proof (cases "length (dims in1) = 1")
      case b1: True
      show ?thesis using assms a1 b1
        by (auto simp add: infer_broadcast_def Let_def dims_size_def map_nth vec_at_def
            CreateTensorShape_def spec_broadcast_dims_def spec_longer_prefix_def spec_promote_A_def spec_promote_B_def
            spec_batch_prefix_def spec_M_def spec_N_def)
    next
      case b2: False
      then have "2 \<le> length (dims in1)" using lb by linarith
      then show ?thesis using assms a1 b2
        by (auto simp add: infer_broadcast_def Let_def dims_size_def map_nth vec_at_def
            CreateTensorShape_def spec_broadcast_dims_def spec_longer_prefix_def spec_promote_A_def spec_promote_B_def
            spec_batch_prefix_def spec_M_def spec_N_def nat_diff_distrib')
    qed
  next
    case a2: False
    then have a2': "2 \<le> length (dims in0)" using la by linarith
    show ?thesis
    proof (cases "length (dims in1) = 1")
      case b1: True
      show ?thesis using assms a2 a2' b1
        by (auto simp add: infer_broadcast_def Let_def dims_size_def map_nth vec_at_def
            CreateTensorShape_def spec_broadcast_dims_def spec_longer_prefix_def spec_promote_A_def spec_promote_B_def
            spec_batch_prefix_def spec_M_def spec_N_def nat_diff_distrib')
    next
      case b2: False
      then have "2 \<le> length (dims in1)" using lb by linarith
      then show ?thesis using assms a2 a2' b2
        by (auto simp add: infer_broadcast_def Let_def dims_size_def map_nth vec_at_def
            CreateTensorShape_def spec_broadcast_dims_def spec_longer_prefix_def spec_promote_A_def spec_promote_B_def
            spec_batch_prefix_def spec_M_def spec_N_def nat_diff_distrib')
    qed
  qed
qed

lemma TensorInferenceFunction_no_broadcast:
  "GetSingleArgument d ''broadcast'' 0 = 0 \<Longrightarrow>
   TensorInferenceFunction d [in0, in1] = infer_no_broadcast d in0 in1"
  by (simp add: TensorInferenceFunction_def)

lemma TensorInferenceFunction_broadcast:
  "GetSingleArgument d ''broadcast'' 0 \<noteq> 0 \<Longrightarrow>
   TensorInferenceFunction d [in0, in1] = infer_broadcast d in0 in1"
  by (simp add: TensorInferenceFunction_def)

lemma infer_no_broadcast_int_range:
  assumes "length (dims in0) = r" and "length (dims in1) = r" and "2 \<le> r"
    and "M = dims in0 ! (r - (if GetSingleArgument d ''trans_a'' 0 \<noteq> 0 then 1 else 2))"
    and "N = dims in1 ! (r - (if GetSingleArgument d ''trans_b'' 0 \<noteq> 0 then 2 else 1))"
    and "- (2 ^ 31) \<le> sint M" and "sint M < 2 ^ 31"
    and "- (2 ^ 31) \<le> sint N" and "sint N < 2 ^ 31"
  shows "infer_no_broadcast d in0 in1 =
           Inr [\<lparr>dims = take (r - 2) (dims in0) @ [M, N], data_type = data_type in0\<rparr>]"
proof -
  have "infer_no_broadcast d in0 in1 =
          Inr [\<lparr>dims = (dims in0)[length (dims in0) - 2 := scast (ucast M :: c_int),
                                   length (dims in0) - 1 := scast (ucast N :: c_int)],
                data_type = data_type in0\<rparr>]"
    using assms(1-5) infer_no_broadcast_eq [of in0 in1 d] by simp
  also have "scast (ucast M :: c_int) = M"
    using assms(6,7) by (rule scast_ucast_int_range)
  also have "scast (ucast N :: c_int) = N"
    using assms(8,9) by (rule scast_ucast_int_range)
  finally show ?thesis
    using assms(1,3) update_last_two [of "dims in0" M N] by simp
qed

lemma infer_no_broadcast_data_type:
  "infer_no_broadcast d in0 in1 = Inr outs \<Longrightarrow> map data_type outs = [data_type in0]"
  by (auto simp add: infer_no_broadcast_def Let_def CreateTensorShape_def
      split: if_splits sum.splits)

lemma infer_broadcast_data_type:
  "infer_broadcast d in0 in1 = Inr outs \<Longrightarrow> map data_type outs = [data_type in0]"
  by (auto simp add: infer_broadcast_def Let_def CreateTensorShape_def
      split: if_splits sum.splits)

lemma dims_at_data_type_update: "dims_at (s\<lparr>data_type := t\<rparr>) j = dims_at s j"
  by (simp add: dims_at_def)

lemma dims_size_data_type_update: "dims_size (s\<lparr>data_type := t\<rparr>) = dims_size s"
  by (simp add: dims_size_def)

lemma dims_data_type_update: "dims (s\<lparr>data_type := t\<rparr>) = dims s"
  by simp

lemma infer_no_broadcast_ignores_data_type_of_B:
  "infer_no_broadcast d in0 (in1\<lparr>data_type := t\<rparr>) = infer_no_broadcast d in0 in1"
  unfolding infer_no_broadcast_def dims_at_data_type_update by (rule refl)

lemma infer_broadcast_ignores_data_type_of_B:
  "infer_broadcast d in0 (in1\<lparr>data_type := t\<rparr>) = infer_broadcast d in0 in1"
  unfolding infer_broadcast_def dims_size_data_type_update dims_data_type_update by (rule refl)

lemma GetGradientDefs_eq:
  assumes "op_input (Def g) = [A, B]" and "g_output g = [G]"
    and "\<not> bool_argument (Def g) ''broadcast''"
  shows "GetGradientDefs g = Inr
    (if bool_argument (Def g) ''trans_a'' then
       if bool_argument (Def g) ''trans_b'' then
         [spec_matmul B G (GradientName A) True True (spec_scratch (Def g)),
          spec_matmul G A (GradientName B) True True (spec_scratch (Def g))]
       else
         [spec_matmul B G (GradientName A) False True (spec_scratch (Def g)),
          spec_matmul A G (GradientName B) False False (spec_scratch (Def g))]
     else
       if bool_argument (Def g) ''trans_b'' then
         [spec_matmul G B (GradientName A) False False (spec_scratch (Def g)),
          spec_matmul G A (GradientName B) True False (spec_scratch (Def g))]
       else
         [spec_matmul G B (GradientName A) False True (spec_scratch (Def g)),
          spec_matmul A G (GradientName B) True False (spec_scratch (Def g))])"
  using assms by (simp add: gradient_defs)

lemma GetArgument_spec_matmul:
  "GetArgument (spec_matmul x y out ta tb (spec_scratch d)) ''use_scratch'' =
     (if HasArgument d ''use_scratch'' then Some \<lparr>arg_name = ''use_scratch'', arg_i = 1\<rparr> else None)"
  by (simp add: GetArgument_def spec_matmul_def spec_scratch_def)

subsection \<open>Shape inference without broadcasting\<close>

text \<open>
  Claim C1: without broadcasting, for inputs of equal rank \<open>r \<ge> 2\<close> the inferred shape
  has rank \<open>r\<close>, the leading \<open>r - 2\<close> entries of the first input, and the last two
  entries \<open>(M, N)\<close>.

  The code keeps \<open>M\<close> and \<open>N\<close> in \<^verbatim>\<open>int\<close> locals, so a dimension outside the
  range of a 32-bit \<^verbatim>\<open>int\<close> does not reach the output: for the shapes
  \<open>(4294967296, 2)\<close> and \<open>(2, 3)\<close>, whose contraction dimensions agree, the inferred
  shape is \<open>(0, 3)\<close> and not \<open>(4294967296, 3)\<close>. The broadcast branch reads the same
  dimensions into \<^verbatim>\<open>size_t\<close> locals and has no such loss. For dimensions within
  the range of \<^verbatim>\<open>int\<close> the claim holds, see \<open>infer_no_broadcast_int_range\<close>.
\<close>

theorem C1_int_locals_truncate:
  "TensorInferenceFunction
     \<lparr>op_type = ''BatchMatMul'', op_name = [], op_input = [''A'', ''B''],
      op_output = [''Y''], op_arg = []\<rparr>
     [\<lparr>dims = [4294967296, 2], data_type = FLOAT\<rparr>, \<lparr>dims = [2, 3], data_type = FLOAT\<rparr>]
   = Inr [\<lparr>dims = [0, 3], data_type = FLOAT\<rparr>]"
  by (simp add: eval_defs)

text \<open>
  Claim C8: without broadcasting, a first input of rank below 2 is a shape error.
\<close>

theorem C8_rank_of_A_below_two:
  assumes "GetSingleArgument d ''broadcast'' 0 = 0" and "length (dims in0) < 2"
  shows "TensorInferenceFunction d [in0, in1] = Inl ShapeError"
  using assms
  by (simp add: TensorInferenceFunction_no_broadcast infer_no_broadcast_def dims_size_def)

theorem C8_rank_of_A_below_two_witness:
  "TensorInferenceFunction
     \<lparr>op_type = ''BatchMatMul'', op_name = [], op_input = [''A'', ''B''],
      op_output = [''Y''], op_arg = [\<lparr>arg_name = ''broadcast'', arg_i = 0\<rparr>]\<rparr>
     [\<lparr>dims = [4], data_type = FLOAT\<rparr>, \<lparr>dims = [4, 5], data_type = FLOAT\<rparr>]
   = Inl ShapeError"
  using C8_rank_of_A_below_two [of
     "\<lparr>op_type = ''BatchMatMul'', op_name = [], op_input = [''A'', ''B''],
      op_output = [''Y''], op_arg = [\<lparr>arg_name = ''broadcast'', arg_i = 0\<rparr>]\<rparr>"
     "\<lparr>dims = [4], data_type = FLOAT\<rparr>" "\<lparr>dims = [4, 5], data_type = FLOAT\<rparr>"]
  by (simp add: GetSingleArgument_def GetArgument_def)

text \<open>
  Claim C4 says that a mismatch of the contraction dimensions is a shape error. The code
  never compares them: for \<open>A: (2, 3, 4)\<close> and \<open>B: (2, 5, 6)\<close> without transposes the
  inferred shape is \<open>(2, 3, 6)\<close>.
\<close>

theorem C4_counterexample:
  "TensorInferenceFunction
     \<lparr>op_type = ''BatchMatMul'', op_name = [], op_input = [''A'', ''B''],
      op_output = [''Y''], op_arg = []\<rparr>
     [\<lparr>dims = [2, 3, 4], data_type = FLOAT\<rparr>, \<lparr>dims = [2, 5, 6], data_type = FLOAT\<rparr>]
   = Inr [\<lparr>dims = [2, 3, 6], data_type = FLOAT\<rparr>]"
  by (simp add: eval_defs)

text \<open>
  Claim C4, amended: a mismatch of the contraction dimensions raises no error. Without
  broadcasting the function returns a shape whenever the first input has rank at least 2
  and the second input has at least that rank; with broadcasting it returns a shape
  whenever both inputs have rank at least 1. The contraction dimensions do not occur in
  these conditions.
\<close>

theorem C4_contraction_not_checked:
  "(GetSingleArgument d ''broadcast'' 0 = 0 \<and> 2 \<le> length (dims in0)
      \<and> length (dims in0) \<le> length (dims in1) \<longrightarrow>
      (\<exists>out. TensorInferenceFunction d [in0, in1] = Inr [out])) \<and>
   (GetSingleArgument d ''broadcast'' 0 \<noteq> 0 \<and> dims in0 \<noteq> [] \<and> dims in1 \<noteq> [] \<longrightarrow>
      (\<exists>out. TensorInferenceFunction d [in0, in1] = Inr [out]))"
  by (simp add: TensorInferenceFunction_no_broadcast TensorInferenceFunction_broadcast
      infer_no_broadcast_eq infer_broadcast_eq)

theorem C4_contraction_not_checked_witness:
  "(\<exists>out. TensorInferenceFunction
     \<lparr>op_type = ''BatchMatMul'', op_name = [], op_input = [''A'', ''B''],
      op_output = [''Y''], op_arg = []\<rparr>
     [\<lparr>dims = [2, 3, 4], data_type = FLOAT\<rparr>, \<lparr>dims = [2, 5, 6], data_type = FLOAT\<rparr>]
   = Inr [out]) \<and>
   (\<exists>out. TensorInferenceFunction
     \<lparr>op_type = ''BatchMatMul'', op_name = [], op_input = [''A'', ''B''],
      op_output = [''Y''], op_arg = [\<lparr>arg_name = ''broadcast'', arg_i = 1\<rparr>]\<rparr>
     [\<lparr>dims = [2, 3, 4], data_type = FLOAT\<rparr>, \<lparr>dims = [2, 5, 6], data_type = FLOAT\<rparr>]
   = Inr [out])"
  using
    C4_contraction_not_checked [of
     "\<lparr>op_type = ''BatchMatMul'', op_name = [], op_input = [''A'', ''B''],
      op_output = [''Y''], op_arg = []\<rparr>"
     "\<lparr>dims = [2, 3, 4], data_type = FLOAT\<rparr>" "\<lparr>dims = [2, 5, 6], data_type = FLOAT\<rparr>"]
    C4_contraction_not_checked [of
     "\<lparr>op_type = ''BatchMatMul'', op_name = [], op_input = [''A'', ''B''],
      op_output = [''Y''], op_arg = [\<lparr>arg_name = ''broadcast'', arg_i = 1\<rparr>]\<rparr>"
     "\<lparr>dims = [2, 3, 4], data_type = FLOAT\<rparr>" "\<lparr>dims = [2, 5, 6], data_type = FLOAT\<rparr>"]
  by (simp add: GetSingleArgument_def GetArgument_def)

text \<open>
  Claim C5 says that inputs of unequal rank are a shape error without broadcasting. The
  code checks the rank of the first input only: for \<open>A: (2, 3)\<close> and
  \<open>B: (5, 3, 4)\<close> the inferred shape is \<open>(2, 3)\<close>.
\<close>

theorem C5_counterexample:
  "TensorInferenceFunction
     \<lparr>op_type = ''BatchMatMul'', op_name = [], op_input = [''A'', ''B''],
      op_output = [''Y''], op_arg = []\<rparr>
     [\<lparr>dims = [2, 3], data_type = FLOAT\<rparr>, \<lparr>dims = [5, 3, 4], data_type = FLOAT\<rparr>]
   = Inr [\<lparr>dims = [2, 3], data_type = FLOAT\<rparr>]"
  by (simp add: eval_defs)

text \<open>
  Claim C5, amended: without broadcasting, unequal ranks alone are not a shape error. The
  code checks the rank of the first input only and reads the second input at a position
  counted from the rank of the first: \<open>ndim - 1\<close>, or \<open>ndim - 2\<close> when
  \<^verbatim>\<open>trans_b\<close> is set. For inputs of unequal rank, a first input of rank below 2 is a
  shape error; when the first input has rank \<open>ndim \<ge> 2\<close> and the second input has an
  entry at that position, the function raises no error and returns a shape of rank
  \<open>ndim\<close> whose leading \<open>ndim - 2\<close> entries are those of the first input. Inputs whose
  second shape has no entry at that position are not covered.
\<close>

theorem C5_rank_of_B_not_compared:
  assumes "GetSingleArgument d ''broadcast'' 0 = 0"
    and "length (dims in0) \<noteq> length (dims in1)"
  shows "(length (dims in0) < 2 \<longrightarrow> TensorInferenceFunction d [in0, in1] = Inl ShapeError) \<and>
         (2 \<le> length (dims in0) \<and>
          length (dims in0) - (if GetSingleArgument d ''trans_b'' 0 \<noteq> 0 then 2 else 1)
            < length (dims in1) \<longrightarrow>
            (\<exists>out. TensorInferenceFunction d [in0, in1] = Inr [out] \<and>
                   length (dims out) = length (dims in0) \<and>
                   take (length (dims in0) - 2) (dims out)
                     = take (length (dims in0) - 2) (dims in0)))"
proof (intro conjI impI)
  assume "length (dims in0) < 2"
  then show "TensorInferenceFunction d [in0, in1] = Inl ShapeError"
    using assms(1)
    by (simp add: TensorInferenceFunction_no_broadcast infer_no_broadcast_def dims_size_def)
next
  assume r: "2 \<le> length (dims in0) \<and>
          length (dims in0) - (if GetSingleArgument d ''trans_b'' 0 \<noteq> 0 then 2 else 1)
            < length (dims in1)"
  then have "infer_no_broadcast d in0 in1 =
    Inr [\<lparr>dims = (dims in0)
            [length (dims in0) - 2 :=
               scast (ucast (dims in0 ! (length (dims in0)
                        - (if GetSingleArgument d ''trans_a'' 0 \<noteq> 0 then 1 else 2))) :: c_int),
             length (dims in0) - 1 :=
               scast (ucast (dims in1 ! (length (dims in0)
                        - (if GetSingleArgument d ''trans_b'' 0 \<noteq> 0 then 2 else 1))) :: c_int)],
          data_type = data_type in0\<rparr>]"
    by (simp add: infer_no_broadcast_read_in_range)
  then show "\<exists>out. TensorInferenceFunction d [in0, in1] = Inr [out] \<and>
                   length (dims out) = length (dims in0) \<and>
                   take (length (dims in0) - 2) (dims out)
                     = take (length (dims in0) - 2) (dims in0)"
    using assms(1) by (simp add: TensorInferenceFunction_no_broadcast)
qed

theorem C5_rank_of_B_not_compared_witness:
  "(\<exists>out. TensorInferenceFunction
       \<lparr>op_type = ''BatchMatMul'', op_name = [], op_input = [''A'', ''B''],
        op_output = [''Y''], op_arg = []\<rparr>
       [\<lparr>dims = [7, 3, 4], data_type = FLOAT\<rparr>, \<lparr>dims = [9, 8, 5, 4], data_type = FLOAT\<rparr>]
     = Inr [out] \<and> length (dims out) = 3 \<and> take 1 (dims out) = [7]) \<and>
   (\<exists>out. TensorInferenceFunction
       \<lparr>op_type = ''BatchMatMul'', op_name = [], op_input = [''A'', ''B''],
        op_output = [''Y''], op_arg = [\<lparr>arg_name = ''trans_b'', arg_i = 1\<rparr>]\<rparr>
       [\<lparr>dims = [7, 3, 4], data_type = FLOAT\<rparr>, \<lparr>dims = [5, 6], data_type = FLOAT\<rparr>]
     = Inr [out] \<and> length (dims out) = 3 \<and> take 1 (dims out) = [7]) \<and>
   TensorInferenceFunction
       \<lparr>op_type = ''BatchMatMul'', op_name = [], op_input = [''A'', ''B''],
        op_output = [''Y''], op_arg = []\<rparr>
       [\<lparr>dims = [4], data_type = FLOAT\<rparr>, \<lparr>dims = [4, 5], data_type = FLOAT\<rparr>]
     = Inl ShapeError"
  using
    C5_rank_of_B_not_compared [of
       "\<lparr>op_type = ''BatchMatMul'', op_name = [], op_input = [''A'', ''B''],
        op_output = [''Y''], op_arg = []\<rparr>"
       "\<lparr>dims = [7, 3, 4], data_type = FLOAT\<rparr>" "\<lparr>dims = [9, 8, 5, 4], data_type = FLOAT\<rparr>"]
    C5_rank_of_B_not_compared [of
       "\<lparr>op_type = ''BatchMatMul'', op_name = [], op_input = [''A'', ''B''],
        op_output = [''Y''], op_arg = [\<lparr>arg_name = ''trans_b'', arg_i = 1\<rparr>]\<rparr>"
       "\<lparr>dims = [7, 3, 4], data_type = FLOAT\<rparr>" "\<lparr>dims = [5, 6], data_type = FLOAT\<rparr>"]
    C5_rank_of_B_not_compared [of
       "\<lparr>op_type = ''BatchMatMul'', op_name = [], op_input = [''A'', ''B''],
        op_output = [''Y''], op_arg = []\<rparr>"
       "\<lparr>dims = [4], data_type = FLOAT\<rparr>" "\<lparr>dims = [4, 5], data_type = FLOAT\<rparr>"]
  by (simp add: GetSingleArgument_def GetArgument_def numeral_3_eq_3)


subsection \<open>Shape inference with broadcasting\<close>

text \<open>
  Claim C6: with broadcasting, a 1-D first input is promoted with a leading axis of size 1
  and a 1-D second input with a trailing axis of size 1; the output has the batch
  dimensions, then \<open>M\<close> unless the first input was promoted, then \<open>N\<close> unless the
  second input was promoted, then a single 1 if both were promoted. In particular a 1-D
  first input of length \<open>K\<close> and a second input of shape \<open>(K, N)\<close>, read without
  transposing it, give the shape \<open>(N)\<close>.
\<close>

theorem C6_broadcast_promotes_1D:
  assumes "GetSingleArgument d ''broadcast'' 0 \<noteq> 0"
    and "dims in0 \<noteq> []" and "dims in1 \<noteq> []"
  shows "TensorInferenceFunction d [in0, in1] =
           Inr [\<lparr>dims = spec_broadcast_dims (GetSingleArgument d ''trans_a'' 0 \<noteq> 0)
                          (GetSingleArgument d ''trans_b'' 0 \<noteq> 0) (dims in0) (dims in1),
                 data_type = data_type in0\<rparr>] \<and>
         (\<forall>k n. dims in0 = [k] \<and> dims in1 = [k, n] \<and> GetSingleArgument d ''trans_b'' 0 = 0 \<longrightarrow>
            TensorInferenceFunction d [in0, in1] = Inr [\<lparr>dims = [n], data_type = data_type in0\<rparr>])"
proof -
  have eq: "TensorInferenceFunction d [in0, in1] =
           Inr [\<lparr>dims = spec_broadcast_dims (GetSingleArgument d ''trans_a'' 0 \<noteq> 0)
                          (GetSingleArgument d ''trans_b'' 0 \<noteq> 0) (dims in0) (dims in1),
                 data_type = data_type in0\<rparr>]"
    using assms by (simp add: TensorInferenceFunction_broadcast infer_broadcast_eq)
  have "spec_broadcast_dims ta False [k] [k, n] = [n]" for ta k n
    by (simp add: spec_broadcast_dims_def spec_longer_prefix_def spec_promote_A_def
        spec_promote_B_def spec_batch_prefix_def spec_N_def)
  with eq show ?thesis by simp
qed

theorem C6_broadcast_promotes_1D_witness:
  "TensorInferenceFunction
     \<lparr>op_type = ''BatchMatMul'', op_name = [], op_input = [''A'', ''B''],
      op_output = [''Y''], op_arg = [\<lparr>arg_name = ''broadcast'', arg_i = 1\<rparr>]\<rparr>
     [\<lparr>dims = [3], data_type = FLOAT\<rparr>, \<lparr>dims = [3, 4], data_type = FLOAT\<rparr>]
   = Inr [\<lparr>dims = [4], data_type = FLOAT\<rparr>]"
  using C6_broadcast_promotes_1D [of
     "\<lparr>op_type = ''BatchMatMul'', op_name = [], op_input = [''A'', ''B''],
      op_output = [''Y''], op_arg = [\<lparr>arg_name = ''broadcast'', arg_i = 1\<rparr>]\<rparr>"
     "\<lparr>dims = [3], data_type = FLOAT\<rparr>" "\<lparr>dims = [3, 4], data_type = FLOAT\<rparr>"]
  by (simp add: GetSingleArgument_def GetArgument_def spec_broadcast_dims_def
      spec_longer_prefix_def spec_promote_A_def spec_promote_B_def spec_batch_prefix_def
      spec_N_def)

text \<open>
  Claim C7: with broadcasting, the output starts with the batch dimensions of the operand
  that has more dimensions after the promotion, copied as they are, and ends with the one
  or two matrix dimensions. Batch dimensions are not combined pairwise: for
  \<open>A: (1, 2, 3)\<close> and \<open>B: (5, 3, 4)\<close> the batch dimension of the output is 1, the
  one of \<open>A\<close>.
\<close>

theorem C7_longer_prefix_verbatim:
  assumes "GetSingleArgument d ''broadcast'' 0 \<noteq> 0"
    and "dims in0 \<noteq> []" and "dims in1 \<noteq> []"
  shows "\<exists>out matrix_dims.
           TensorInferenceFunction d [in0, in1] = Inr [out] \<and>
           dims out = spec_longer_prefix (dims in0) (dims in1) @ matrix_dims \<and>
           length matrix_dims = (if length (dims in0) = 1 \<or> length (dims in1) = 1 then 1 else 2)"
proof -
  have "TensorInferenceFunction d [in0, in1] =
           Inr [\<lparr>dims = spec_broadcast_dims (GetSingleArgument d ''trans_a'' 0 \<noteq> 0)
                          (GetSingleArgument d ''trans_b'' 0 \<noteq> 0) (dims in0) (dims in1),
                 data_type = data_type in0\<rparr>]"
    using assms by (simp add: TensorInferenceFunction_broadcast infer_broadcast_eq)
  then show ?thesis
    by (auto simp add: spec_broadcast_dims_def)
qed

theorem C7_longer_prefix_verbatim_witness:
  "\<exists>out matrix_dims.
     TensorInferenceFunction
       \<lparr>op_type = ''BatchMatMul'', op_name = [], op_input = [''A'', ''B''],
        op_output = [''Y''], op_arg = [\<lparr>arg_name = ''broadcast'', arg_i = 1\<rparr>]\<rparr>
       [\<lparr>dims = [1, 2, 3], data_type = FLOAT\<rparr>, \<lparr>dims = [5, 3, 4], data_type = FLOAT\<rparr>]
     = Inr [out] \<and> dims out = [1] @ matrix_dims \<and> length matrix_dims = 2"
  using C7_longer_prefix_verbatim [of
     "\<lparr>op_type = ''BatchMatMul'', op_name = [], op_input = [''A'', ''B''],
      op_output = [''Y''], op_arg = [\<lparr>arg_name = ''broadcast'', arg_i = 1\<rparr>]\<rparr>"
     "\<lparr>dims = [1, 2, 3], data_type = FLOAT\<rparr>" "\<lparr>dims = [5, 3, 4], data_type = FLOAT\<rparr>"]
  by (simp add: GetSingleArgument_def GetArgument_def spec_longer_prefix_def spec_promote_A_def
      spec_promote_B_def spec_batch_prefix_def)

text \<open>
  Claim C10: in both branches the data type of the inferred shape is the data type of the
  first input, and the data type of the second input does not change the result.
\<close>

theorem C10_data_type_of_A:
  "(\<forall>outs. TensorInferenceFunction d [in0, in1] = Inr outs \<longrightarrow>
       map data_type outs = [data_type in0]) \<and>
   TensorInferenceFunction d [in0, in1\<lparr>data_type := t\<rparr>] = TensorInferenceFunction d [in0, in1]"
  by (simp add: TensorInferenceFunction_def infer_no_broadcast_data_type
      infer_broadcast_data_type infer_no_broadcast_ignores_data_type_of_B
      infer_broadcast_ignores_data_type_of_B)

theorem C10_data_type_of_A_witness:
  "TensorInferenceFunction
     \<lparr>op_type = ''BatchMatMul'', op_name = [], op_input = [''A'', ''B''],
      op_output = [''Y''], op_arg = [\<lparr>arg_name = ''broadcast'', arg_i = 1\<rparr>]\<rparr>
     [\<lparr>dims = [2, 3], data_type = FLOAT\<rparr>, \<lparr>dims = [7, 5, 3, 4], data_type = INT32\<rparr>]
   = Inr [\<lparr>dims = [7, 5, 2, 4], data_type = FLOAT\<rparr>] \<and>
   map data_type [\<lparr>dims = [7, 5, 2, 4], data_type = FLOAT\<rparr>] = [FLOAT] \<and>
   TensorInferenceFunction
     \<lparr>op_type = ''BatchMatMul'', op_name = [], op_input = [''A'', ''B''],
      op_output = [''Y''], op_arg = []\<rparr>
     [\<lparr>dims = [2, 3, 4], data_type = DOUBLE\<rparr>, \<lparr>dims = [2, 4, 5], data_type = INT32\<rparr>]
   = Inr [\<lparr>dims = [2, 3, 5], data_type = DOUBLE\<rparr>] \<and>
   map data_type [\<lparr>dims = [2, 3, 5], data_type = DOUBLE\<rparr>] = [DOUBLE]"
  using
    C10_data_type_of_A [of
     "\<lparr>op_type = ''BatchMatMul'', op_name = [], op_input = [''A'', ''B''],
      op_output = [''Y''], op_arg = [\<lparr>arg_name = ''broadcast'', arg_i = 1\<rparr>]\<rparr>"
     "\<lparr>dims = [2, 3], data_type = FLOAT\<rparr>" "\<lparr>dims = [7, 5, 3, 4], data_type = INT32\<rparr>" INT32]
    C10_data_type_of_A [of
     "\<lparr>op_type = ''BatchMatMul'', op_name = [], op_input = [''A'', ''B''],
      op_output = [''Y''], op_arg = []\<rparr>"
     "\<lparr>dims = [2, 3, 4], data_type = DOUBLE\<rparr>" "\<lparr>dims = [2, 4, 5], data_type = INT32\<rparr>" INT32]
  by (simp add: eval_defs upt_rec)

subsection \<open>Gradient definitions\<close>

text \<open>
  Claim C2: without broadcasting, the gradient maker emits two \<^verbatim>\<open>BatchMatMul\<close>
  operators, first the gradient of the first input and then the gradient of the second.
  With \<open>G\<close> the gradient of the output, the four configurations give
  \<open>dA = G B\<^sup>T\<close> and \<open>dB = A\<^sup>T G\<close>; \<open>dA = G B\<close> and \<open>dB = G\<^sup>T A\<close>;
  \<open>dA = B G\<^sup>T\<close> and \<open>dB = A G\<close>; \<open>dA = B\<^sup>T G\<^sup>T\<close> and
  \<open>dB = G\<^sup>T A\<^sup>T\<close>. A transpose is an argument of the emitted operator.
\<close>

theorem C2_gradient_table:
  assumes "op_input (Def g) = [A, B]" and "g_output g = [G]"
    and "\<not> bool_argument (Def g) ''broadcast''"
  shows
    "(\<not> bool_argument (Def g) ''trans_a'' \<and> \<not> bool_argument (Def g) ''trans_b'' \<longrightarrow>
        GetGradientDefs g = Inr
          [spec_matmul G B (GradientName A) False True (spec_scratch (Def g)),
           spec_matmul A G (GradientName B) True False (spec_scratch (Def g))]) \<and>
     (\<not> bool_argument (Def g) ''trans_a'' \<and> bool_argument (Def g) ''trans_b'' \<longrightarrow>
        GetGradientDefs g = Inr
          [spec_matmul G B (GradientName A) False False (spec_scratch (Def g)),
           spec_matmul G A (GradientName B) True False (spec_scratch (Def g))]) \<and>
     (bool_argument (Def g) ''trans_a'' \<and> \<not> bool_argument (Def g) ''trans_b'' \<longrightarrow>
        GetGradientDefs g = Inr
          [spec_matmul B G (GradientName A) False True (spec_scratch (Def g)),
           spec_matmul A G (GradientName B) False False (spec_scratch (Def g))]) \<and>
     (bool_argument (Def g) ''trans_a'' \<and> bool_argument (Def g) ''trans_b'' \<longrightarrow>
        GetGradientDefs g = Inr
          [spec_matmul B G (GradientName A) True True (spec_scratch (Def g)),
           spec_matmul G A (GradientName B) True True (spec_scratch (Def g))])"
  using GetGradientDefs_eq [OF assms] by simp

theorem C2_gradient_table_witness:
  "GetGradientDefs
     \<lparr>Def = \<lparr>op_type = ''BatchMatMul'', op_name = [], op_input = [''A'', ''B''],
             op_output = [''Y''], op_arg = []\<rparr>,
      g_output = [''Y_grad'']\<rparr>
   = Inr [\<lparr>op_type = ''BatchMatMul'', op_name = [], op_input = [''Y_grad'', ''B''],
            op_output = [''A_grad''], op_arg = [\<lparr>arg_name = ''trans_b'', arg_i = 1\<rparr>]\<rparr>,
          \<lparr>op_type = ''BatchMatMul'', op_name = [], op_input = [''A'', ''Y_grad''],
            op_output = [''B_grad''], op_arg = [\<lparr>arg_name = ''trans_a'', arg_i = 1\<rparr>]\<rparr>] \<and>
   GetGradientDefs
     \<lparr>Def = \<lparr>op_type = ''BatchMatMul'', op_name = [], op_input = [''A'', ''B''],
             op_output = [''Y''], op_arg = [\<lparr>arg_name = ''trans_b'', arg_i = 1\<rparr>]\<rparr>,
      g_output = [''Y_grad'']\<rparr>
   = Inr [\<lparr>op_type = ''BatchMatMul'', op_name = [], op_input = [''Y_grad'', ''B''],
            op_output = [''A_grad''], op_arg = []\<rparr>,
          \<lparr>op_type = ''BatchMatMul'', op_name = [], op_input = [''Y_grad'', ''A''],
            op_output = [''B_grad''], op_arg = [\<lparr>arg_name = ''trans_a'', arg_i = 1\<rparr>]\<rparr>] \<and>
   GetGradientDefs
     \<lparr>Def = \<lparr>op_type = ''BatchMatMul'', op_name = [], op_input = [''A'', ''B''],
             op_output = [''Y''], op_arg = [\<lparr>arg_name = ''trans_a'', arg_i = 1\<rparr>]\<rparr>,
      g_output = [''Y_grad'']\<rparr>
   = Inr [\<lparr>op_type = ''BatchMatMul'', op_name = [], op_input = [''B'', ''Y_grad''],
            op_output = [''A_grad''], op_arg = [\<lparr>arg_name = ''trans_b'', arg_i = 1\<rparr>]\<rparr>,
          \<lparr>op_type = ''BatchMatMul'', op_name = [], op_input = [''A'', ''Y_grad''],
            op_output = [''B_grad''], op_arg = []\<rparr>] \<and>
   GetGradientDefs
     \<lparr>Def = \<lparr>op_type = ''BatchMatMul'', op_name = [], op_input = [''A'', ''B''],
             op_output = [''Y''], op_arg = [\<lparr>arg_name = ''trans_a'', arg_i = 1\<rparr>, \<lparr>arg_name = ''trans_b'', arg_i = 1\<rparr>]\<rparr>,
      g_output = [''Y_grad'']\<rparr>
   = Inr [\<lparr>op_type = ''BatchMatMul'', op_name = [], op_input = [''B'', ''Y_grad''],
            op_output = [''A_grad''], op_arg = [\<lparr>arg_name = ''trans_a'', arg_i = 1\<rparr>, \<lparr>arg_name = ''trans_b'', arg_i = 1\<rparr>]\<rparr>,
          \<lparr>op_type = ''BatchMatMul'', op_name = [], op_input = [''Y_grad'', ''A''],
            op_output = [''B_grad''], op_arg = [\<lparr>arg_name = ''trans_a'', arg_i = 1\<rparr>, \<lparr>arg_name = ''trans_b'', arg_i = 1\<rparr>]\<rparr>]"
  using
    C2_gradient_table [of
     "\<lparr>Def = \<lparr>op_type = ''BatchMatMul'', op_name = [], op_input = [''A'', ''B''],
             op_output = [''Y''], op_arg = []\<rparr>,
      g_output = [''Y_grad'']\<rparr>" "''A''" "''B''" "''Y_grad''"]
    C2_gradient_table [of
     "\<lparr>Def = \<lparr>op_type = ''BatchMatMul'', op_name = [], op_input = [''A'', ''B''],
             op_output = [''Y''], op_arg = [\<lparr>arg_name = ''trans_b'', arg_i = 1\<rparr>]\<rparr>,
      g_output = [''Y_grad'']\<rparr>" "''A''" "''B''" "''Y_grad''"]
    C2_gradient_table [of
     "\<lparr>Def = \<lparr>op_type = ''BatchMatMul'', op_name = [], op_input = [''A'', ''B''],
             op_output = [''Y''], op_arg = [\<lparr>arg_name = ''trans_a'', arg_i = 1\<rparr>]\<rparr>,
      g_output = [''Y_grad'']\<rparr>" "''A''" "''B''" "''Y_grad''"]
    C2_gradient_table [of
     "\<lparr>Def = \<lparr>op_type = ''BatchMatMul'', op_name = [], op_input = [''A'', ''B''],
             op_output = [''Y''], op_arg = [\<lparr>arg_name = ''trans_a'', arg_i = 1\<rparr>, \<lparr>arg_name = ''trans_b'', arg_i = 1\<rparr>]\<rparr>,
      g_output = [''Y_grad'']\<rparr>" "''A''" "''B''" "''Y_grad''"]
  by (simp add: bool_argument_def HasArgument_def GetArgument_def GradientName_def
      spec_matmul_def spec_scratch_def)

text \<open>
  Claim C3: with \<^verbatim>\<open>broadcast\<close> set, whatever \<^verbatim>\<open>trans_a\<close> and
  \<^verbatim>\<open>trans_b\<close> are, the gradient maker emits no operator; for an operator with its
  two inputs the failure is the one of the broadcast check.
\<close>

theorem C3_broadcast_gradient_unsupported:
  assumes "bool_argument (Def g) ''broadcast''"
  shows "(\<forall>ops. GetGradientDefs g \<noteq> Inr ops) \<and>
         (length (op_input (Def g)) = 2 \<longrightarrow> GetGradientDefs g = Inl UnsupportedGradientError)"
  using assms by (simp add: GetGradientDefs_def)

theorem C3_broadcast_gradient_unsupported_witness:
  "GetGradientDefs
     \<lparr>Def = \<lparr>op_type = ''BatchMatMul'', op_name = [], op_input = [''A'', ''B''],
             op_output = [''Y''],
             op_arg = [\<lparr>arg_name = ''trans_a'', arg_i = 1\<rparr>,
                       \<lparr>arg_name = ''broadcast'', arg_i = 1\<rparr>]\<rparr>,
      g_output = [''Y_grad'']\<rparr>
   = Inl UnsupportedGradientError"
  using C3_broadcast_gradient_unsupported [of
     "\<lparr>Def = \<lparr>op_type = ''BatchMatMul'', op_name = [], op_input = [''A'', ''B''],
             op_output = [''Y''],
             op_arg = [\<lparr>arg_name = ''trans_a'', arg_i = 1\<rparr>,
                       \<lparr>arg_name = ''broadcast'', arg_i = 1\<rparr>]\<rparr>,
      g_output = [''Y_grad'']\<rparr>"]
  by (simp add: bool_argument_def HasArgument_def GetArgument_def)

text \<open>
  Claim C9 says that \<^verbatim>\<open>use_scratch\<close> is propagated with the value it has on the
  forward operator. The code tests that the argument is present and emits the value 1: a
  forward operator with \<^verbatim>\<open>use_scratch = 0\<close> gives two operators with
  \<^verbatim>\<open>use_scratch = 1\<close>.
\<close>

theorem C9_counterexample:
  "GetGradientDefs
     \<lparr>Def = \<lparr>op_type = ''BatchMatMul'', op_name = [], op_input = [''A'', ''B''],
             op_output = [''Y''], op_arg = [\<lparr>arg_name = ''use_scratch'', arg_i = 0\<rparr>]\<rparr>,
      g_output = [''Y_grad'']\<rparr>
   = Inr [\<lparr>op_type = ''BatchMatMul'', op_name = [], op_input = [''Y_grad'', ''B''],
            op_output = [''A_grad''],
            op_arg = [\<lparr>arg_name = ''trans_b'', arg_i = 1\<rparr>,
                      \<lparr>arg_name = ''use_scratch'', arg_i = 1\<rparr>]\<rparr>,
          \<lparr>op_type = ''BatchMatMul'', op_name = [], op_input = [''A'', ''Y_grad''],
            op_output = [''B_grad''],
            op_arg = [\<lparr>arg_name = ''trans_a'', arg_i = 1\<rparr>,
                      \<lparr>arg_name = ''use_scratch'', arg_i = 1\<rparr>]\<rparr>]"
  by (simp add: gradient_defs GradientName_def bool_argument_def HasArgument_def GetArgument_def)

text \<open>
  Claim C9, amended: if the forward operator has an argument \<^verbatim>\<open>use_scratch\<close>,
  whatever its value, both emitted operators have the argument
  \<^verbatim>\<open>use_scratch = 1\<close>; if it has none, neither emitted operator has one.
\<close>

theorem C9_use_scratch_by_presence:
  assumes "op_input (Def g) = [A, B]" and "g_output g = [G]"
    and "\<not> bool_argument (Def g) ''broadcast''"
  shows "\<exists>dA dB. GetGradientDefs g = Inr [dA, dB] \<and>
           GetArgument dA ''use_scratch'' =
             (if HasArgument (Def g) ''use_scratch''
              then Some \<lparr>arg_name = ''use_scratch'', arg_i = 1\<rparr> else None) \<and>
           GetArgument dB ''use_scratch'' =
             (if HasArgument (Def g) ''use_scratch''
              then Some \<lparr>arg_name = ''use_scratch'', arg_i = 1\<rparr> else None)"
  unfolding GetGradientDefs_eq [OF assms]
  by (simp add: GetArgument_spec_matmul)

theorem C9_use_scratch_by_presence_witness:
  "\<exists>dA dB.
     GetGradientDefs
       \<lparr>Def = \<lparr>op_type = ''BatchMatMul'', op_name = [], op_input = [''A'', ''B''],
               op_output = [''Y''], op_arg = [\<lparr>arg_name = ''use_scratch'', arg_i = 5\<rparr>]\<rparr>,
        g_output = [''Y_grad'']\<rparr> = Inr [dA, dB] \<and>
     GetArgument dA ''use_scratch'' = Some \<lparr>arg_name = ''use_scratch'', arg_i = 1\<rparr> \<and>
     GetArgument dB ''use_scratch'' = Some \<lparr>arg_name = ''use_scratch'', arg_i = 1\<rparr>"
  using C9_use_scratch_by_presence [of
     "\<lparr>Def = \<lparr>op_type = ''BatchMatMul'', op_name = [], op_input = [''A'', ''B''],
             op_output = [''Y''], op_arg = [\<lparr>arg_name = ''use_scratch'', arg_i = 5\<rparr>]\<rparr>,
      g_output = [''Y_grad'']\<rparr>" "''A''" "''B''" "''Y_grad''"]
  by (simp add: bool_argument_def HasArgument_def GetArgument_def)

end
